theory Spec2Isabelle
  imports
    Complex_Main
    "HOL-Library.Multiset"
    "HOL-Library.Char_ord"
    "HOL-Library.List_Lexorder"
begin

section \<open>The Framingham CHD dashboard: data loader and aggregation pipeline\<close>

text \<open>
  Shallow embedding of \<^verbatim>\<open>IndividualProject_ChristelleKhoury.py\<close>. A data frame is the
  list of its rows, in row order. A missing value (pandas' NaN) is \<open>None\<close>. Numbers that
  pandas holds as floats are rationals here: a mean is the exact quotient, so rounding of
  the last binary digit is not modelled. Strings are compared as Python compares them,
  lexicographically by character code.
\<close>

subsection \<open>Rows of the CSV and of the loaded table\<close>

record csv_row =
  gender :: string
  age :: int
  currentSmoker :: int
  cigsPerDay :: rat
  education :: "rat option"
  BMI :: rat
  totChol :: rat
  BP_Category :: string
  TenYearCHD :: int

record row = csv_row +
  Smoking_Status :: string
  Education_Level :: "string option"

subsection \<open>\<^verbatim>\<open>load_data\<close>\<close>

definition education_map :: "(rat \<times> string) list" where
  "education_map =
     [(1, ''Some High School''), (2, ''High School/GED''),
      (3, ''Some College''), (4, ''College'')]"

text \<open>\<^verbatim>\<open>Series.map(dict)\<close>: a value that is missing or is no key of the dict becomes missing.\<close>

definition series_map :: "('a \<times> 'b) list \<Rightarrow> 'a option \<Rightarrow> 'b option" where
  "series_map d x = (case x of None \<Rightarrow> None | Some v \<Rightarrow> map_of d v)"

definition load_row :: "csv_row \<Rightarrow> row" where
  "load_row r =
     \<lparr>gender = gender r, age = age r, currentSmoker = currentSmoker r,
      cigsPerDay = cigsPerDay r, education = education r, BMI = BMI r,
      totChol = totChol r, BP_Category = BP_Category r, TenYearCHD = TenYearCHD r,
      Smoking_Status = (if currentSmoker r = 1 then ''Current Smoker'' else ''Non-Smoker''),
      Education_Level = series_map education_map (education r)\<rparr>"

definition load_data :: "csv_row list \<Rightarrow> row list" where
  "load_data df = map load_row df"

subsection \<open>The filter\<close>

definition isin :: "'a \<Rightarrow> 'a list \<Rightarrow> bool" where
  "isin x xs = (x \<in> set xs)"

text \<open>\<^verbatim>\<open>Series.between(left, right)\<close> includes both ends.\<close>

definition between :: "int \<Rightarrow> int \<Rightarrow> int \<Rightarrow> bool" where
  "between x left right = (left \<le> x \<and> x \<le> right)"

definition filtered_data :: "row list \<Rightarrow> string list \<Rightarrow> int \<times> int \<Rightarrow> row list" where
  "filtered_data data gender_options age_range =
     filter (\<lambda>r. isin (gender r) gender_options
                 \<and> between (age r) (fst age_range) (snd age_range)) data"

definition risk_data :: "row list \<Rightarrow> row list" where
  "risk_data fd = filter (\<lambda>r. TenYearCHD r = 1) fd"

subsection \<open>Rate by category: \<^verbatim>\<open>groupby(key)['TenYearCHD'].mean().reset_index()\<close>\<close>

text \<open>The mean of no value at all is missing (NaN).\<close>

definition mean :: "int list \<Rightarrow> rat option" where
  "mean xs = (if xs = [] then None else Some (of_int (sum_list xs) / of_nat (length xs)))"

text \<open>
  A row of an aggregate frame: the group label, the mean of \<^verbatim>\<open>TenYearCHD\<close> (the column
  keeps that name in the source) and the added column \<^verbatim>\<open>CHD_Risk_%\<close>.
\<close>

record 'k rate_row =
  category :: 'k
  TenYearCHD_mean :: "rat option"
  CHD_Risk_pct :: "rat option"

text \<open>
  Grouping by a column of strings: rows with a missing key are dropped, and the groups
  are the distinct keys that occur, sorted (\<^verbatim>\<open>dropna=True\<close>, \<^verbatim>\<open>sort=True\<close>).
\<close>

definition group_keys :: "('r \<Rightarrow> 'k::linorder option) \<Rightarrow> 'r list \<Rightarrow> 'k list" where
  "group_keys key df = sort (remdups (List.map_filter key df))"

definition groupby_mean ::
  "'k list \<Rightarrow> ('r \<Rightarrow> 'k option) \<Rightarrow> ('r \<Rightarrow> int) \<Rightarrow> 'r list \<Rightarrow> ('k \<times> rat option) list" where
  "groupby_mean ks key col df =
     map (\<lambda>k. (k, mean (map col (filter (\<lambda>r. key r = Some k) df)))) ks"

definition with_pct :: "'k \<times> rat option \<Rightarrow> 'k rate_row" where
  "with_pct p =
     \<lparr>category = fst p, TenYearCHD_mean = snd p,
      CHD_Risk_pct = map_option (\<lambda>m. m * 100) (snd p)\<rparr>"

definition rate_by_category ::
  "('r \<Rightarrow> 'k::linorder option) \<Rightarrow> ('r \<Rightarrow> int) \<Rightarrow> 'r list \<Rightarrow> 'k rate_row list" where
  "rate_by_category key col df = map with_pct (groupby_mean (group_keys key df) key col df)"

definition chd_rate_gender :: "row list \<Rightarrow> string rate_row list" where
  "chd_rate_gender fd = rate_by_category (\<lambda>r. Some (gender r)) TenYearCHD fd"

definition chd_rate_smoke :: "row list \<Rightarrow> string rate_row list" where
  "chd_rate_smoke fd = rate_by_category (\<lambda>r. Some (Smoking_Status r)) TenYearCHD fd"

subsection \<open>Ordered categories: \<^verbatim>\<open>pd.Categorical\<close> and \<^verbatim>\<open>sort_values\<close>\<close>

text \<open>A label that is none of the categories becomes missing.\<close>

definition Categorical :: "string list \<Rightarrow> string \<Rightarrow> string option" where
  "Categorical categories v = (if v \<in> set categories then Some v else None)"

fun code_of :: "string list \<Rightarrow> string \<Rightarrow> nat" where
  "code_of [] v = 0"
| "code_of (c # cs) v = (if c = v then 0 else Suc (code_of cs v))"

text \<open>
  Sorting a categorical column orders by the position of the label among the categories,
  missing labels last (\<^verbatim>\<open>na_position='last'\<close>). The sort is taken stable; pandas' default
  sort may order rows of equal key otherwise, and here only rows with a missing label can
  have equal keys.
\<close>

definition sort_position :: "string list \<Rightarrow> string option \<Rightarrow> nat" where
  "sort_position categories c =
     (case c of None \<Rightarrow> length categories | Some v \<Rightarrow> code_of categories v)"

definition set_category :: "('k \<Rightarrow> 'j) \<Rightarrow> 'k rate_row \<Rightarrow> 'j rate_row" where
  "set_category f r =
     \<lparr>category = f (category r), TenYearCHD_mean = TenYearCHD_mean r,
      CHD_Risk_pct = CHD_Risk_pct r\<rparr>"

definition sort_values_categorical ::
  "string list \<Rightarrow> string option rate_row list \<Rightarrow> string option rate_row list" where
  "sort_values_categorical categories df =
     sort_key (\<lambda>r. sort_position categories (category r)) df"

text \<open>\<^verbatim>\<open>sort_values(col, ascending=False)\<close>: largest first, missing values last.\<close>

definition sort_values_desc :: "('a \<Rightarrow> rat option) \<Rightarrow> 'a list \<Rightarrow> 'a list" where
  "sort_values_desc col df =
     sort_key (\<lambda>r. - the (col r)) (filter (\<lambda>r. col r \<noteq> None) df)
     @ filter (\<lambda>r. col r = None) df"

subsection \<open>Education\<close>

definition CUSTOM_RED_PALETTE :: "string list" where
  "CUSTOM_RED_PALETTE = [''#800020'', ''#993333'', ''#A64A4A'', ''#BFBFBF'']"

definition edu_order :: "string list" where
  "edu_order = [''Some High School'', ''High School/GED'', ''Some College'', ''College'']"

text \<open>
  The statements of the education block, in the order of the source. The result is the
  pair of the frame given to the chart and the colour map (a dict, kept as the list of
  its items in insertion order; the keys are group labels, so no key repeats).
\<close>

definition edu_plot :: "row list \<Rightarrow> string option rate_row list \<times> (string \<times> string) list" where
  "edu_plot fd =
     (let chd_rate_edu = rate_by_category Education_Level TenYearCHD fd;
          sorted_by_risk = sort_values_desc CHD_Risk_pct chd_rate_edu;
          color_map_edu = zip (map category sorted_by_risk) CUSTOM_RED_PALETTE;
          chd_rate_edu = map (set_category (Categorical edu_order)) chd_rate_edu;
          chd_rate_edu = sort_values_categorical edu_order chd_rate_edu
      in (chd_rate_edu, color_map_edu))"

definition chd_rate_edu :: "row list \<Rightarrow> string option rate_row list" where
  "chd_rate_edu fd = fst (edu_plot fd)"

definition color_map_edu :: "row list \<Rightarrow> (string \<times> string) list" where
  "color_map_edu fd = snd (edu_plot fd)"

subsection \<open>Smoking intensity: \<^verbatim>\<open>pd.cut\<close>\<close>

datatype error =
  BinsNotMonotonic | BinEdgesNotUnique | LabelsNotUnique | LabelCountMismatch
  | NaNToInteger

definition bins :: "rat list" where
  "bins = [0, 9, 19, 70]"

definition labels :: "string list" where
  "labels = [''Light (1-9)'', ''Moderate (10-19)'', ''Heavy (20+)'']"

text \<open>\<^verbatim>\<open>bins.searchsorted(x, side='right')\<close> on increasing edges: how many edges are \<open>\<le> x\<close>.\<close>

definition searchsorted_right :: "rat list \<Rightarrow> rat \<Rightarrow> nat" where
  "searchsorted_right bs x = length (takeWhile (\<lambda>b. b \<le> x) bs)"

text \<open>
  \<^verbatim>\<open>pd.cut(x, bins=bs, labels=ls, right=False)\<close>. The four \<^verbatim>\<open>ValueError\<close>s of pandas are
  the four errors. With \<^verbatim>\<open>right=False\<close> the intervals are closed on the left and open on
  the right; a value below the first edge or not below the last one gets no label.
\<close>

definition cut_label :: "rat list \<Rightarrow> string list \<Rightarrow> rat \<Rightarrow> string option" where
  "cut_label bs ls x =
     (let ids = searchsorted_right bs x
      in if ids = 0 \<or> ids = length bs then None else Some (ls ! (ids - 1)))"

definition pd_cut :: "rat list \<Rightarrow> rat list \<Rightarrow> string list \<Rightarrow> error + string option list" where
  "pd_cut xs bs ls =
     (if \<not> sorted bs then Inl BinsNotMonotonic
      else if \<not> distinct bs \<and> length bs \<noteq> 2 then Inl BinEdgesNotUnique
      else if \<not> distinct ls then Inl LabelsNotUnique
      else if length ls \<noteq> length bs - 1 then Inl LabelCountMismatch
      else Inr (map (cut_label bs ls) xs))"

text \<open>
  Grouping by a categorical column lists the groups in the order of the categories.
  Whether a category with no row is listed is the \<^verbatim>\<open>observed\<close> argument of
  \<^verbatim>\<open>groupby\<close>; the source leaves it to the default of the installed pandas, which is
  \<^verbatim>\<open>False\<close> (all categories listed) before pandas 3.0 and \<^verbatim>\<open>True\<close> (only categories
  that occur) from 3.0 on. It is a parameter here.
\<close>

definition categorical_group_keys :: "bool \<Rightarrow> string list \<Rightarrow> string option list \<Rightarrow> string list" where
  "categorical_group_keys observed categories col =
     (if observed then filter (\<lambda>c. Some c \<in> set col) categories else categories)"

definition smokers_df :: "row list \<Rightarrow> row list" where
  "smokers_df fd = filter (\<lambda>r. currentSmoker r = 1) fd"

definition chd_rate_intensity :: "bool \<Rightarrow> row list \<Rightarrow> error + string rate_row list" where
  "chd_rate_intensity observed fd =
     (case pd_cut (map cigsPerDay (smokers_df fd)) bins labels of
        Inl e \<Rightarrow> Inl e
      | Inr Smoking_Intensity \<Rightarrow>
          Inr (map with_pct
                (groupby_mean (categorical_group_keys observed labels Smoking_Intensity)
                   snd (\<lambda>p. TenYearCHD (fst p)) (zip (smokers_df fd) Smoking_Intensity))))"

subsection \<open>BMI, cholesterol and blood pressure\<close>

text \<open>The two value sequences of a box plot: rows without CHD first, rows with CHD second.\<close>

definition bmi_groups :: "row list \<Rightarrow> rat list \<times> rat list" where
  "bmi_groups fd =
     (map BMI (filter (\<lambda>r. TenYearCHD r = 0) fd), map BMI (filter (\<lambda>r. TenYearCHD r = 1) fd))"

definition chol_groups :: "row list \<Rightarrow> rat list \<times> rat list" where
  "chol_groups fd =
     (map totChol (filter (\<lambda>r. TenYearCHD r = 0) fd),
      map totChol (filter (\<lambda>r. TenYearCHD r = 1) fd))"

definition bp_order :: "string list" where
  "bp_order = [''Normal'', ''Elevated'', ''Hypertension Stage 1'', ''Hypertension Stage 2'']"

definition chd_rate_bp :: "row list \<Rightarrow> string option rate_row list" where
  "chd_rate_bp fd =
     (let chd_rate_bp = rate_by_category (\<lambda>r. Some (BP_Category r)) TenYearCHD fd;
          chd_rate_bp = map (set_category (Categorical bp_order)) chd_rate_bp
      in sort_values_categorical bp_order chd_rate_bp)"

subsection \<open>The whole pipeline\<close>

text \<open>What the pipeline hands to each chart.\<close>

record figures =
  fig_sex :: "string rate_row list"
  fig_age :: "row list"
  fig_edu :: "string option rate_row list \<times> (string \<times> string) list"
  fig_smoke :: "string rate_row list"
  fig_intensity :: "string rate_row list"
  fig_bmi :: "rat list \<times> rat list"
  fig_chol :: "rat list \<times> rat list"
  fig_bp :: "string option rate_row list"

definition pipeline :: "bool \<Rightarrow> row list \<Rightarrow> string list \<Rightarrow> int \<times> int \<Rightarrow> error + figures" where
  "pipeline observed data sel rng =
     (let fd = filtered_data data sel rng
      in case chd_rate_intensity observed fd of
           Inl e \<Rightarrow> Inl e
         | Inr intensity \<Rightarrow>
             Inr \<lparr>fig_sex = chd_rate_gender fd, fig_age = risk_data fd,
                  fig_edu = edu_plot fd, fig_smoke = chd_rate_smoke fd,
                  fig_intensity = intensity, fig_bmi = bmi_groups fd,
                  fig_chol = chol_groups fd, fig_bp = chd_rate_bp fd\<rparr>)"

datatype risk_factor_choice = Smoking | Body_Weight | Blood_Pressure

record controls =
  gender_options :: "string list"
  age_range :: "int \<times> int"
  risk_factor :: risk_factor_choice

text \<open>The charts shown: the top row always, the bottom row by the selected risk factor.\<close>

definition shown :: "risk_factor_choice \<Rightarrow> string list" where
  "shown rf =
     [''fig_sex'', ''fig_age'', ''fig_edu''] @
     (case rf of
        Smoking \<Rightarrow> [''fig_smoke'', ''fig_intensity'']
      | Body_Weight \<Rightarrow> [''fig_bmi'', ''fig_chol'']
      | Blood_Pressure \<Rightarrow> [''fig_bp''])"

subsection \<open>A run of the script over its variables\<close>

text \<open>
  Streamlit runs the script from top to bottom on every interaction. What outlives a run
  is \<^verbatim>\<open>st.session_state\<close>, of which the script reads the key \<^verbatim>\<open>"password_correct"\<close>
  (absent until a password was entered), and the cache of \<^verbatim>\<open>load_data\<close>
  (\<^verbatim>\<open>st.cache_data\<close>): the first call reads the CSV, later calls return the cached table.
\<close>

record session =
  password_correct :: "bool option"
  cached_data :: "row list option"

definition check_password :: "session \<Rightarrow> bool" where
  "check_password s = (case password_correct s of None \<Rightarrow> False | Some ok \<Rightarrow> ok)"

definition load_data_cached :: "csv_row list \<Rightarrow> session \<Rightarrow> row list \<times> session" where
  "load_data_cached csv s =
     (case cached_data s of
        Some df \<Rightarrow> (df, s)
      | None \<Rightarrow> (let df = load_data csv in (df, s\<lparr>cached_data := Some df\<rparr>)))"

text \<open>
  The module-level variables of the script: the loaded table, the variables of the filter
  panel, the filtered table and each frame or pair of series that is handed to a chart.
  Names that are assigned and read within one block only (\<^verbatim>\<open>sorted_by_risk\<close>,
  \<^verbatim>\<open>smokers_df\<close>, \<^verbatim>\<open>bins\<close>, \<^verbatim>\<open>labels\<close>, the fixed orders) are local to that block's
  definition above. A variable holds a value of its own: every pandas operation of the
  script that makes a frame (boolean indexing, \<^verbatim>\<open>copy\<close>, \<^verbatim>\<open>groupby\<close>, \<^verbatim>\<open>sort_values\<close>) makes a
  new one, and the two column assignments write to frames made that way. The namespace a
  run starts from is arbitrary: nothing is assumed of what the variables hold before they
  are assigned.
\<close>

record namespace =
  data_v :: "row list"
  gender_options_v :: "string list"
  age_min_v :: int
  age_max_v :: int
  age_range_v :: "int \<times> int"
  risk_factor_v :: risk_factor_choice
  filtered_data_v :: "row list"
  risk_data_v :: "row list"
  chd_rate_gender_v :: "string rate_row list"
  chd_rate_edu_v :: "string option rate_row list"
  color_map_edu_v :: "(string \<times> string) list"
  chd_rate_smoke_v :: "string rate_row list"
  chd_rate_intensity_v :: "string rate_row list"
  bmi_v :: "rat list \<times> rat list"
  chol_v :: "rat list \<times> rat list"
  chd_rate_bp_v :: "string option rate_row list"

text \<open>
  Lines 53 to 58. The three widgets return the values of \<open>c\<close>. Their arguments are
  evaluated first: \<^verbatim>\<open>int(data['age'].min())\<close> raises on a table without rows, whose minimum
  is NaN.
\<close>

definition filter_panel :: "controls \<Rightarrow> namespace \<Rightarrow> error + namespace" where
  "filter_panel c ns =
     (case data_v ns of
        [] \<Rightarrow> Inl NaNToInteger
      | r # rs \<Rightarrow>
          Inr (ns\<lparr>gender_options_v := gender_options c,
                  age_min_v := fold min (map age rs) (age r),
                  age_max_v := fold max (map age rs) (age r),
                  age_range_v := age_range c,
                  risk_factor_v := risk_factor c\<rparr>))"

text \<open>Lines 60 to 132, one definition for each variable assigned.\<close>

definition assign_filtered_data :: "namespace \<Rightarrow> namespace" where
  "assign_filtered_data ns =
     ns\<lparr>filtered_data_v := filtered_data (data_v ns) (gender_options_v ns) (age_range_v ns)\<rparr>"

definition assign_risk_data :: "namespace \<Rightarrow> namespace" where
  "assign_risk_data ns = ns\<lparr>risk_data_v := risk_data (filtered_data_v ns)\<rparr>"

definition assign_chd_rate_gender :: "namespace \<Rightarrow> namespace" where
  "assign_chd_rate_gender ns = ns\<lparr>chd_rate_gender_v := chd_rate_gender (filtered_data_v ns)\<rparr>"

definition assign_chd_rate_edu :: "namespace \<Rightarrow> namespace" where
  "assign_chd_rate_edu ns =
     ns\<lparr>chd_rate_edu_v := fst (edu_plot (filtered_data_v ns)),
        color_map_edu_v := snd (edu_plot (filtered_data_v ns))\<rparr>"

definition assign_chd_rate_smoke :: "namespace \<Rightarrow> namespace" where
  "assign_chd_rate_smoke ns = ns\<lparr>chd_rate_smoke_v := chd_rate_smoke (filtered_data_v ns)\<rparr>"

definition assign_chd_rate_intensity :: "bool \<Rightarrow> namespace \<Rightarrow> error + namespace" where
  "assign_chd_rate_intensity observed ns =
     (case chd_rate_intensity observed (filtered_data_v ns) of
        Inl e \<Rightarrow> Inl e
      | Inr agg \<Rightarrow> Inr (ns\<lparr>chd_rate_intensity_v := agg\<rparr>))"

definition assign_bmi :: "namespace \<Rightarrow> namespace" where
  "assign_bmi ns = ns\<lparr>bmi_v := bmi_groups (filtered_data_v ns)\<rparr>"

definition assign_chol :: "namespace \<Rightarrow> namespace" where
  "assign_chol ns = ns\<lparr>chol_v := chol_groups (filtered_data_v ns)\<rparr>"

definition assign_chd_rate_bp :: "namespace \<Rightarrow> namespace" where
  "assign_chd_rate_bp ns = ns\<lparr>chd_rate_bp_v := chd_rate_bp (filtered_data_v ns)\<rparr>"

definition aggregation :: "bool \<Rightarrow> namespace \<Rightarrow> error + namespace" where
  "aggregation observed ns =
     (let ns = assign_filtered_data ns;
          ns = assign_risk_data ns;
          ns = assign_chd_rate_gender ns;
          ns = assign_chd_rate_edu ns;
          ns = assign_chd_rate_smoke ns
      in case assign_chd_rate_intensity observed ns of
           Inl e \<Rightarrow> Inl e
         | Inr ns \<Rightarrow> Inr (assign_chd_rate_bp (assign_chol (assign_bmi ns))))"

text \<open>
  How a run ends: stopped at the password gate (\<^verbatim>\<open>st.stop()\<close>), with an exception, or with
  its variables assigned and the charts shown.
\<close>

datatype outcome = Stopped | Raised error | Completed namespace "string list"

definition script_run ::
  "bool \<Rightarrow> csv_row list \<Rightarrow> controls \<Rightarrow> session \<Rightarrow> namespace \<Rightarrow> outcome \<times> session" where
  "script_run observed csv c s ns =
     (if \<not> check_password s then (Stopped, s)
      else
        let (df, s') = load_data_cached csv s;
            ns = ns\<lparr>data_v := df\<rparr>
        in case filter_panel c ns of
             Inl e \<Rightarrow> (Raised e, s')
           | Inr ns \<Rightarrow>
               (case aggregation observed ns of
                  Inl e \<Rightarrow> (Raised e, s')
                | Inr ns \<Rightarrow> (Completed ns (shown (risk_factor_v ns)), s')))"

subsection \<open>Rows that count for a smoking-intensity band\<close>

text \<open>
  The rows of the filtered table behind the band \<open>l\<close>: the current smokers whose
  \<^verbatim>\<open>cigsPerDay\<close> is cut to \<open>l\<close>; and the current smokers whose \<^verbatim>\<open>cigsPerDay\<close> lies between the
  first edge (included) and the last edge (excluded).
\<close>

definition band_rows :: "row list \<Rightarrow> string \<Rightarrow> row list" where
  "band_rows fd l =
     filter (\<lambda>r. currentSmoker r = 1 \<and> cut_label bins labels (cigsPerDay r) = Some l) fd"

definition in_range_smoker :: "row \<Rightarrow> bool" where
  "in_range_smoker r = (currentSmoker r = 1 \<and> 0 \<le> cigsPerDay r \<and> cigsPerDay r < 70)"

subsection \<open>The rate as the specification words it\<close>

text \<open>
  The number of rows of a group with \<^verbatim>\<open>TenYearCHD = 1\<close>, divided by the number of rows of the
  group, times 100. The source computes a mean instead; the two are compared below.
\<close>

definition chd_share_pct :: "(row \<Rightarrow> bool) \<Rightarrow> row list \<Rightarrow> rat" where
  "chd_share_pct in_group fd =
     of_nat (length (filter (\<lambda>r. in_group r \<and> TenYearCHD r = 1) fd))
     / of_nat (length (filter in_group fd)) * 100"

subsection \<open>Example tables\<close>

definition ex_csv :: "string \<Rightarrow> int \<Rightarrow> int \<Rightarrow> rat \<Rightarrow> rat option \<Rightarrow> string \<Rightarrow> int \<Rightarrow> csv_row" where
  "ex_csv g a s c e bp chd =
     \<lparr>gender = g, age = a, currentSmoker = s, cigsPerDay = c, education = e,
      BMI = 25, totChol = 200, BP_Category = bp, TenYearCHD = chd\<rparr>"

definition ex_row :: "string \<Rightarrow> int \<Rightarrow> int \<Rightarrow> rat \<Rightarrow> rat option \<Rightarrow> string \<Rightarrow> int \<Rightarrow> row" where
  "ex_row g a s c e bp chd = load_row (ex_csv g a s c e bp chd)"

definition ex_men :: "row list" where
  "ex_men =
     [ex_row ''Male'' 40 1 9 (Some 1) ''Normal'' 1,
      ex_row ''Male'' 45 1 0 (Some 4) ''Hypertension Stage 2'' 0,
      ex_row ''Male'' 41 0 0 None ''Normal'' 0]"

definition ex_mixed :: "row list" where
  "ex_mixed =
     [ex_row ''Male'' 40 1 9 (Some 1) ''Normal'' 1,
      ex_row ''Female'' 70 0 0 None ''Elevated'' 0,
      ex_row ''Male'' 45 1 0 (Some 4) ''Hypertension Stage 2'' 0,
      ex_row ''Female'' 50 1 70 (Some 2) ''Prehypertension'' 1,
      ex_row ''Male'' 41 1 25 (Some 4) ''Normal'' 0]"

definition ex_controls :: controls where
  "ex_controls = \<lparr>gender_options = [''Male''], age_range = (41, 50), risk_factor = Smoking\<rparr>"

definition ex_session :: session where
  "ex_session = \<lparr>password_correct = Some True, cached_data = None\<rparr>"

definition ex_blank :: namespace where
  "ex_blank =
     \<lparr>data_v = [], gender_options_v = [], age_min_v = 0, age_max_v = 0, age_range_v = (0, 0),
      risk_factor_v = Smoking, filtered_data_v = [], risk_data_v = [], chd_rate_gender_v = [],
      chd_rate_edu_v = [], color_map_edu_v = [], chd_rate_smoke_v = [],
      chd_rate_intensity_v = [], bmi_v = ([], []), chol_v = ([], []), chd_rate_bp_v = []\<rparr>"

definition ex_stale :: namespace where
  "ex_stale =
     \<lparr>data_v = ex_mixed, gender_options_v = [''Female''], age_min_v = 1, age_max_v = 99,
      age_range_v = (60, 70), risk_factor_v = Blood_Pressure, filtered_data_v = ex_mixed,
      risk_data_v = ex_mixed, chd_rate_gender_v = chd_rate_gender ex_mixed,
      chd_rate_edu_v = chd_rate_edu ex_mixed, color_map_edu_v = color_map_edu ex_mixed,
      chd_rate_smoke_v = chd_rate_smoke ex_mixed,
      chd_rate_intensity_v =
        [\<lparr>category = ''Light (1-9)'', TenYearCHD_mean = Some 1, CHD_Risk_pct = Some 100\<rparr>],
      bmi_v = ([1], [2]), chol_v = ([3], [4]), chd_rate_bp_v = chd_rate_bp ex_mixed\<rparr>"

lemmas ex_defs = ex_men_def ex_mixed_def ex_row_def ex_csv_def load_row_def series_map_def education_map_def

lemmas agg_defs =
  chd_rate_gender_def chd_rate_smoke_def chd_rate_edu_def chd_rate_bp_def edu_plot_def
  rate_by_category_def group_keys_def groupby_mean_def with_pct_def mean_def
  sort_values_desc_def sort_values_categorical_def sort_position_def set_category_def
  Categorical_def edu_order_def bp_order_def CUSTOM_RED_PALETTE_def
  chd_rate_intensity_def pd_cut_def cut_label_def searchsorted_right_def bins_def labels_def
  categorical_group_keys_def smokers_df_def risk_data_def bmi_groups_def chol_groups_def
  filtered_data_def isin_def between_def

section \<open>Theorems\<close>

subsection \<open>Groups and means\<close>

lemma sum_list_01:
  "\<forall>x \<in> set xs. x = 0 \<or> x = (1::int) \<Longrightarrow> sum_list xs = int (length (filter (\<lambda>x. x = 1) xs))"
  by (induction xs) auto

lemma set_map_filter_keys:
  "set (List.map_filter key df) = {k. \<exists>r \<in> set df. key r = Some k}"
  by (induction df) (auto split: option.splits)

lemma set_group_keys: "set (group_keys key df) = {k. \<exists>r \<in> set df. key r = Some k}"
  by (simp add: group_keys_def set_map_filter_keys)

lemma distinct_group_keys: "distinct (group_keys key df)"
  by (simp add: group_keys_def)

lemma filter_eq_distinct: "distinct ks \<Longrightarrow> k \<in> set ks \<Longrightarrow> filter (\<lambda>j. j = k) ks = [k]"
  by (induction ks) (auto simp: filter_empty_conv)

lemma category_with_pct: "category (with_pct p) = fst p"
  by (simp add: with_pct_def)

lemma rate_by_category_filter:
  "filter (\<lambda>x. category x = k) (rate_by_category key col df) =
     map (\<lambda>k. with_pct (k, mean (map col (filter (\<lambda>r. key r = Some k) df))))
       (filter (\<lambda>j. j = k) (group_keys key df))"
  by (simp add: rate_by_category_def groupby_mean_def filter_map o_def category_with_pct)

lemma map_col_filter_01:
  "length (filter (\<lambda>x. x = 1) (map col (filter P df))) =
     length (filter (\<lambda>r. P r \<and> col r = (1::int)) df)"
  by (induction df) auto

lemma mean_range:
  assumes "\<forall>x \<in> set xs. x = 0 \<or> x = 1" and "mean xs = Some m"
  shows "0 \<le> m \<and> m \<le> 1"
proof -
  from assms(2) have ne: "xs \<noteq> []" and m: "m = of_int (sum_list xs) / of_nat (length xs)"
    by (auto simp: mean_def split: if_splits)
  have s: "sum_list xs = int (length (filter (\<lambda>x. x = 1) xs))"
    using assms(1) by (rule sum_list_01)
  have "length (filter (\<lambda>x. x = 1) xs) \<le> length xs"
    by simp
  then have "(of_nat (length (filter (\<lambda>x. x = 1) xs)) :: rat) \<le> of_nat (length xs)"
    by (simp only: of_nat_le_iff)
  moreover have "(0::rat) < of_nat (length xs)"
    using ne by simp
  ultimately show ?thesis
    by (simp add: m s divide_le_eq_1)
qed

lemma pct_range:
  assumes "\<forall>x \<in> set xs. x = 0 \<or> x = 1"
  shows "case CHD_Risk_pct (with_pct (k, mean xs)) of
           None \<Rightarrow> xs = [] | Some v \<Rightarrow> 0 \<le> v \<and> v \<le> 100"
proof (cases "mean xs")
  case None
  then show ?thesis by (simp add: with_pct_def mean_def split: if_splits)
next
  case (Some m)
  with mean_range [OF assms Some] show ?thesis
    by (simp add: with_pct_def)
qed

lemma rate_by_category_range:
  assumes "\<forall>r \<in> set df. col r = 0 \<or> col r = 1"
    and "x \<in> set (rate_by_category key col df)"
  shows "\<exists>v. CHD_Risk_pct x = Some v \<and> 0 \<le> v \<and> v \<le> 100"
proof -
  from assms(2) obtain k where k: "k \<in> set (group_keys key df)"
    and x: "x = with_pct (k, mean (map col (filter (\<lambda>r. key r = Some k) df)))"
    by (auto simp: rate_by_category_def groupby_mean_def)
  have "\<forall>v \<in> set (map col (filter (\<lambda>r. key r = Some k) df)). v = 0 \<or> v = 1"
    using assms(1) by auto
  from pct_range [OF this, of k] k show ?thesis
    by (auto simp: x set_group_keys filter_empty_conv split: option.splits)
qed

lemma set_sort_values_categorical: "set (sort_values_categorical cs df) = set df"
  by (simp add: sort_values_categorical_def)

lemma pct_set_category: "CHD_Risk_pct (set_category f r) = CHD_Risk_pct r"
  by (simp add: set_category_def)

subsection \<open>The banding and the intensity aggregate\<close>

lemma cut_label_bins:
  "cut_label bins labels x =
     (if x < 0 then None
      else if x < 9 then Some ''Light (1-9)''
      else if x < 19 then Some ''Moderate (10-19)''
      else if x < 70 then Some ''Heavy (20+)''
      else None)"
  by (simp add: cut_label_def searchsorted_right_def bins_def labels_def)

lemma pd_cut_bins: "pd_cut xs bins labels = Inr (map (cut_label bins labels) xs)"
  by (simp add: pd_cut_def bins_def labels_def)

lemma zip_map_filter:
  "map (\<lambda>p. col (fst p)) (filter (\<lambda>p. snd p = Some k) (zip xs (map f xs))) =
     map col (filter (\<lambda>r. f r = Some k) xs)"
  by (induction xs) auto

lemma chd_rate_intensity_eq:
  "chd_rate_intensity obs fd =
     Inr (map (\<lambda>l. with_pct (l, mean (map TenYearCHD (band_rows fd l))))
            (categorical_group_keys obs labels
               (map (\<lambda>r. cut_label bins labels (cigsPerDay r)) (smokers_df fd))))"
proof -
  have cols: "map (cut_label bins labels) (map cigsPerDay (smokers_df fd)) =
      map (\<lambda>r. cut_label bins labels (cigsPerDay r)) (smokers_df fd)"
    by simp
  have grp: "map (\<lambda>p. TenYearCHD (fst p))
        (filter (\<lambda>p. snd p = Some l)
          (zip (smokers_df fd) (map (\<lambda>r. cut_label bins labels (cigsPerDay r)) (smokers_df fd)))) =
      map TenYearCHD (band_rows fd l)" for l
    by (simp only: zip_map_filter) (simp add: smokers_df_def band_rows_def conj_commute)
  show ?thesis
    by (simp only: chd_rate_intensity_def pd_cut_bins sum.case cols groupby_mean_def grp map_map o_def)
qed

lemma cut_label_Some_iff:
  "(\<exists>l. cut_label bins labels x = Some l) \<longleftrightarrow> 0 \<le> x \<and> x < 70"
  by (auto simp: cut_label_bins)

lemma cut_label_Some_range: "cut_label bins labels x = Some l \<Longrightarrow> 0 \<le> x \<and> x < 70"
  using cut_label_Some_iff by blast

lemma band_rows_filter: "band_rows (filter in_range_smoker fd) l = band_rows fd l"
  by (auto simp: band_rows_def in_range_smoker_def intro!: filter_cong dest: cut_label_Some_range)

lemma intensity_keys_filter:
  "categorical_group_keys observed labels
     (map (\<lambda>r. cut_label bins labels (cigsPerDay r)) (smokers_df (filter in_range_smoker fd))) =
   categorical_group_keys observed labels
     (map (\<lambda>r. cut_label bins labels (cigsPerDay r)) (smokers_df fd))"
proof -
  have "Some c \<in> set (map (\<lambda>r. cut_label bins labels (cigsPerDay r))
                        (smokers_df (filter in_range_smoker fd)))
      \<longleftrightarrow> Some c \<in> set (map (\<lambda>r. cut_label bins labels (cigsPerDay r)) (smokers_df fd))" for c
    using cut_label_Some_range [of _ c]
    by (auto simp: smokers_df_def in_range_smoker_def image_iff)
  then show ?thesis
    by (simp only: categorical_group_keys_def)
qed

lemma distinct_intensity_keys: "distinct (categorical_group_keys observed labels col)"
  by (simp add: categorical_group_keys_def labels_def)

subsection \<open>Sorting by an ordered category\<close>

lemma map_sort_key: "map f (sort_key (\<lambda>x. h (f x)) xs) = sort_key h (map f xs)"
proof (induction xs)
  case Nil
  show ?case by simp
next
  case (Cons x xs)
  have ins: "map f (insort_key (\<lambda>x. h (f x)) x ys) = insort_key h (f x) (map f ys)" for ys
    by (induction ys) auto
  show ?case
    by (simp add: ins Cons.IH)
qed

lemma sorted_same_mset_inj:
  assumes "mset xs = mset ys" and "sorted (map f xs)" and "sorted (map f ys)"
    and "inj_on f (set xs)"
  shows "xs = ys"
proof -
  have s: "set ys = set xs"
    using assms(1) by (rule mset_eq_setD [symmetric])
  have "mset (map f xs) = mset (map f ys)"
    using assms(1) by simp
  then have "sort (map f ys) = map f xs"
    using assms(2) by (intro properties_for_sort) simp_all
  moreover have "sort (map f ys) = map f ys"
    using assms(3) by (rule sorted_sort_id)
  ultimately have eq: "map f xs = map f ys"
    by simp
  have "inj_on f (set xs \<union> set ys)"
    using assms(4) by (simp only: s Un_absorb)
  from inj_on_map_eq_map [OF this] eq show ?thesis
    by blast
qed

lemma code_of_less: "v \<in> set cats \<Longrightarrow> code_of cats v < length cats"
  by (induction cats) auto

lemma code_of_inj:
  "v \<in> set cats \<Longrightarrow> w \<in> set cats \<Longrightarrow> code_of cats v = code_of cats w \<Longrightarrow> v = w"
  by (induction cats) (auto split: if_splits)

lemma sorted_map_Suc: "sorted (map Suc ns) = sorted ns"
  by (induction ns) auto

lemma sorted_code_of: "distinct cats \<Longrightarrow> sorted (map (code_of cats) cats)"
proof (induction cats)
  case Nil
  show ?case by simp
next
  case (Cons c cs)
  have "\<forall>v \<in> set cs. code_of (c # cs) v = Suc (code_of cs v)"
    using Cons.prems by auto
  then have "map (code_of (c # cs)) cs = map Suc (map (code_of cs) cs)"
    by (simp only: map_map o_def map_eq_conv)
  then have eq: "map (code_of (c # cs)) (c # cs) = 0 # map Suc (map (code_of cs) cs)"
    by simp
  have "sorted (map Suc (map (code_of cs) cs))"
    using Cons by (simp only: sorted_map_Suc distinct.simps)
  then show ?case
    by (simp only: eq sorted_simps) simp
qed

lemma sort_position_inj:
  assumes "a \<in> insert None (Some ` set cats)" and "b \<in> insert None (Some ` set cats)"
    and "sort_position cats a = sort_position cats b"
  shows "a = b"
proof -
  have "code_of cats v \<noteq> length cats" and "length cats \<noteq> code_of cats v"
    if "v \<in> set cats" for v
    using code_of_less [OF that] by simp_all
  then show ?thesis
    using assms code_of_inj [of _ cats] by (auto simp: sort_position_def)
qed

lemma Categorical_range: "Categorical cats k \<in> insert None (Some ` set cats)"
  by (simp add: Categorical_def)

lemma mset_Categorical:
  assumes "distinct ks" and "distinct cats"
  shows "mset (map (Categorical cats) ks) =
     mset (map Some (filter (\<lambda>c. c \<in> set ks) cats)
           @ replicate (length (filter (\<lambda>k. k \<notin> set cats) ks)) None)"
proof -
  have known: "map (Categorical cats) (filter (\<lambda>k. k \<in> set cats) ks) =
      map Some (filter (\<lambda>k. k \<in> set cats) ks)"
    by (simp add: Categorical_def)
  have unknown: "map (Categorical cats) (filter (\<lambda>k. k \<notin> set cats) ks) =
      replicate (length (filter (\<lambda>k. k \<notin> set cats) ks)) None"
    by (induction ks) (simp_all add: Categorical_def)
  have "set (filter (\<lambda>k. k \<in> set cats) ks) = set (filter (\<lambda>c. c \<in> set ks) cats)"
    by auto
  moreover have "distinct (filter (\<lambda>k. k \<in> set cats) ks)"
    and "distinct (filter (\<lambda>c. c \<in> set ks) cats)"
    using assms by simp_all
  ultimately have swap: "mset (filter (\<lambda>k. k \<in> set cats) ks) =
      mset (filter (\<lambda>c. c \<in> set ks) cats)"
    by (simp only: set_eq_iff_mset_eq_distinct)
  have "mset (map (Categorical cats) ks) =
      mset (map (Categorical cats) (filter (\<lambda>k. k \<in> set cats) ks))
      + mset (map (Categorical cats) (filter (\<lambda>k. k \<notin> set cats) ks))"
    by (induction ks) simp_all
  also have "\<dots> = mset (map Some (filter (\<lambda>k. k \<in> set cats) ks))
      + mset (replicate (length (filter (\<lambda>k. k \<notin> set cats) ks)) None)"
    by (simp only: known unknown)
  also have "mset (map Some (filter (\<lambda>k. k \<in> set cats) ks)) =
      mset (map Some (filter (\<lambda>c. c \<in> set ks) cats))"
    using swap by (metis mset_map)
  finally show ?thesis
    by simp
qed

lemma sorted_target:
  assumes "distinct cats"
  shows "sorted (map (sort_position cats)
     (map Some (filter P cats) @ replicate n None))"
proof -
  have "sorted (map (code_of cats) (filter P cats))"
    using sorted_code_of [OF assms] by (rule sorted_filter)
  moreover have "\<forall>c \<in> set (filter P cats). code_of cats c \<le> length cats"
    using code_of_less [of _ cats] by (auto intro: less_imp_le)
  ultimately show ?thesis
    by (auto simp: sort_position_def sorted_append o_def)
qed

lemma sort_key_Categorical:
  assumes "distinct ks" and "distinct cats"
  shows "sort_key (sort_position cats) (map (Categorical cats) ks) =
     map Some (filter (\<lambda>c. c \<in> set ks) cats)
     @ replicate (length (filter (\<lambda>k. k \<notin> set cats) ks)) None"
proof (rule sorted_same_mset_inj [where f = "sort_position cats"])
  show "mset (sort_key (sort_position cats) (map (Categorical cats) ks)) =
      mset (map Some (filter (\<lambda>c. c \<in> set ks) cats)
            @ replicate (length (filter (\<lambda>k. k \<notin> set cats) ks)) None)"
    by (simp only: mset_sort mset_Categorical [OF assms])
  show "sorted (map (sort_position cats) (sort_key (sort_position cats) (map (Categorical cats) ks)))"
    by (rule sorted_sort_key)
  show "sorted (map (sort_position cats)
      (map Some (filter (\<lambda>c. c \<in> set ks) cats)
       @ replicate (length (filter (\<lambda>k. k \<notin> set cats) ks)) None))"
    by (rule sorted_target [OF assms(2)])
  show "inj_on (sort_position cats) (set (sort_key (sort_position cats) (map (Categorical cats) ks)))"
  proof (rule inj_onI)
    fix a b
    assume "a \<in> set (sort_key (sort_position cats) (map (Categorical cats) ks))"
      and "b \<in> set (sort_key (sort_position cats) (map (Categorical cats) ks))"
      and eq: "sort_position cats a = sort_position cats b"
    then have "a \<in> insert None (Some ` set cats)" and "b \<in> insert None (Some ` set cats)"
      using Categorical_range [of cats] by auto
    then show "a = b"
      using eq by (rule sort_position_inj)
  qed
qed

lemma category_set_category: "category (set_category f r) = f (category r)"
  by (simp add: set_category_def)

lemma categories_sorted:
  assumes "distinct cats"
  shows "map category
     (sort_values_categorical cats
        (map (set_category (Categorical cats)) (rate_by_category key col df))) =
     map Some (filter (\<lambda>c. \<exists>r \<in> set df. key r = Some c) cats)
     @ replicate (length (filter (\<lambda>k. k \<notin> set cats) (group_keys key df))) None"
proof -
  have labels: "map category (map (set_category (Categorical cats)) (rate_by_category key col df)) =
      map (Categorical cats) (group_keys key df)"
    by (simp add: rate_by_category_def groupby_mean_def o_def category_set_category
        category_with_pct)
  have "map category
     (sort_values_categorical cats
        (map (set_category (Categorical cats)) (rate_by_category key col df))) =
     sort_key (sort_position cats) (map (Categorical cats) (group_keys key df))"
    by (simp only: sort_values_categorical_def map_sort_key labels)
  also have "\<dots> = map Some (filter (\<lambda>c. c \<in> set (group_keys key df)) cats)
     @ replicate (length (filter (\<lambda>k. k \<notin> set cats) (group_keys key df))) None"
    by (rule sort_key_Categorical [OF distinct_group_keys assms])
  finally show ?thesis
    by (simp add: set_group_keys)
qed

lemma mean_mset: "mset xs = mset ys \<Longrightarrow> mean xs = mean ys"
proof -
  assume eq: "mset xs = mset ys"
  have "sum_list xs = sum_list ys"
    using eq by (metis sum_mset_sum_list)
  moreover have "length xs = length ys"
    using eq by (rule mset_eq_length)
  ultimately show ?thesis
    by (auto simp: mean_def)
qed

lemma group_keys_set: "group_keys key df = sorted_list_of_set {k. \<exists>r \<in> set df. key r = Some k}"
  by (simp only: group_keys_def sorted_list_of_set_sort_remdups [symmetric] set_map_filter_keys)

lemma rate_by_category_perm:
  assumes "mset df' = mset df"
  shows "rate_by_category key col df' = rate_by_category key col df"
proof -
  have "set df' = set df"
    using assms by (rule mset_eq_setD)
  then have keys: "group_keys key df' = group_keys key df"
    by (simp only: group_keys_set)
  have "mset (map col (filter P df')) = mset (map col (filter P df))" for P
    using assms by simp
  then have "mean (map col (filter P df')) = mean (map col (filter P df))" for P
    by (rule mean_mset)
  then show ?thesis
    by (simp only: rate_by_category_def groupby_mean_def keys)
qed

lemma distinct_orders: "distinct edu_order" "distinct bp_order"
  by (simp_all add: edu_order_def bp_order_def)

lemma loaded_education_level:
  "Education_Level (load_row r) = Some k \<Longrightarrow> k \<in> set edu_order"
  by (cases "education r")
    (auto simp: load_row_def series_map_def education_map_def edu_order_def split: if_splits)

lemma chd_rate_edu_eq:
  "chd_rate_edu fd =
     sort_values_categorical edu_order
       (map (set_category (Categorical edu_order))
          (rate_by_category Education_Level TenYearCHD fd))"
  by (simp add: chd_rate_edu_def edu_plot_def Let_def)

lemma chd_rate_bp_eq:
  "chd_rate_bp fd =
     sort_values_categorical bp_order
       (map (set_category (Categorical bp_order))
          (rate_by_category (\<lambda>r. Some (BP_Category r)) TenYearCHD fd))"
  by (simp add: chd_rate_bp_def Let_def)

subsection \<open>One entry for each category that occurs\<close>

lemma rate_by_category_entry:
  assumes "\<forall>r \<in> set fd. TenYearCHD r = 0 \<or> TenYearCHD r = 1"
    and "\<exists>r \<in> set fd. key r = Some k"
  shows "filter (\<lambda>x. category x = k) (rate_by_category key TenYearCHD fd) =
           [\<lparr>category = k,
             TenYearCHD_mean = Some (chd_share_pct (\<lambda>r. key r = Some k) fd / 100),
             CHD_Risk_pct = Some (chd_share_pct (\<lambda>r. key r = Some k) fd)\<rparr>]"
proof -
  let ?grp = "filter (\<lambda>r. key r = Some k) fd"
  let ?ones = "filter (\<lambda>r. key r = Some k \<and> TenYearCHD r = 1) fd"
  have k: "k \<in> set (group_keys key fd)"
    using assms(2) by (simp add: set_group_keys)
  have ne: "map TenYearCHD ?grp \<noteq> []"
    using assms(2) by (auto simp: filter_empty_conv)
  have "\<forall>x \<in> set (map TenYearCHD ?grp). x = 0 \<or> x = 1"
    using assms(1) by auto
  then have "sum_list (map TenYearCHD ?grp) =
      int (length (filter (\<lambda>x. x = 1) (map TenYearCHD ?grp)))"
    by (rule sum_list_01)
  then have s: "sum_list (map TenYearCHD ?grp) = int (length ?ones)"
    by (simp only: map_col_filter_01)
  have m: "mean (map TenYearCHD ?grp) = Some (of_nat (length ?ones) / of_nat (length ?grp))"
    using ne by (simp add: mean_def s)
  show ?thesis
    by (simp add: rate_by_category_filter filter_eq_distinct [OF distinct_group_keys k] m
        with_pct_def chd_share_pct_def)
qed

lemma rate_by_category_absent:
  assumes "\<not> (\<exists>r \<in> set fd. key r = Some k)"
  shows "k \<notin> category ` set (rate_by_category key col fd)"
proof -
  from assms have "k \<notin> set (group_keys key fd)"
    by (simp add: set_group_keys)
  then show ?thesis
    by (auto simp: rate_by_category_def groupby_mean_def category_with_pct)
qed

lemma Categorical_eq_Some: "k \<in> set cats \<Longrightarrow> Categorical cats c = Some k \<longleftrightarrow> c = k"
  by (auto simp: Categorical_def)

lemma sorted_frame_entry:
  assumes "k \<in> set cats" and "filter (\<lambda>x. category x = k) agg = [e]"
  shows "filter (\<lambda>x. category x = Some k)
           (sort_values_categorical cats (map (set_category (Categorical cats)) agg)) =
         [set_category (Categorical cats) e]"
proof -
  have "filter (\<lambda>x. category x = Some k) (map (set_category (Categorical cats)) agg) =
      map (set_category (Categorical cats)) (filter (\<lambda>x. category x = k) agg)"
    by (simp add: filter_map o_def category_set_category Categorical_eq_Some [OF assms(1)])
  then show ?thesis
    by (simp add: sort_values_categorical_def filter_sort assms(2))
qed

lemma sorted_frame_absent:
  assumes "k \<notin> category ` set agg"
  shows "Some k \<notin> category ` set (sort_values_categorical cats
           (map (set_category (Categorical cats)) agg))"
  using assms
  by (auto simp: set_sort_values_categorical category_set_category Categorical_def
      split: if_splits)

subsection \<open>The variables after a run\<close>

lemma aggregation_eq:
  "aggregation observed ns =
     (case pipeline observed (data_v ns) (gender_options_v ns) (age_range_v ns) of
        Inl e \<Rightarrow> Inl e
      | Inr figs \<Rightarrow>
          Inr (ns\<lparr>filtered_data_v :=
                    filtered_data (data_v ns) (gender_options_v ns) (age_range_v ns),
                  risk_data_v := fig_age figs,
                  chd_rate_gender_v := fig_sex figs,
                  chd_rate_edu_v := fst (fig_edu figs),
                  color_map_edu_v := snd (fig_edu figs),
                  chd_rate_smoke_v := fig_smoke figs,
                  chd_rate_intensity_v := fig_intensity figs,
                  bmi_v := fig_bmi figs,
                  chol_v := fig_chol figs,
                  chd_rate_bp_v := fig_bp figs\<rparr>))"
  by (simp add: aggregation_def pipeline_def Let_def assign_filtered_data_def
      assign_risk_data_def assign_chd_rate_gender_def assign_chd_rate_edu_def
      assign_chd_rate_smoke_def assign_chd_rate_intensity_def assign_bmi_def assign_chol_def
      assign_chd_rate_bp_def chd_rate_intensity_eq)

lemma aggregation_indep:
  assumes "data_v ns1 = data_v ns2" and "gender_options_v ns1 = gender_options_v ns2"
    and "age_min_v ns1 = age_min_v ns2" and "age_max_v ns1 = age_max_v ns2"
    and "age_range_v ns1 = age_range_v ns2" and "risk_factor_v ns1 = risk_factor_v ns2"
  shows "aggregation observed ns1 = aggregation observed ns2"
  using assms
  by (cases ns1; cases ns2)
    (simp add: aggregation_def Let_def assign_filtered_data_def
      assign_risk_data_def assign_chd_rate_gender_def assign_chd_rate_edu_def
      assign_chd_rate_smoke_def assign_chd_rate_intensity_def assign_bmi_def assign_chol_def
      assign_chd_rate_bp_def chd_rate_intensity_eq)

lemma run_after_panel_indep:
  "(case filter_panel c (ns1\<lparr>data_v := df\<rparr>) of
      Inl e \<Rightarrow> (Raised e, s')
    | Inr ns \<Rightarrow>
        (case aggregation observed ns of
           Inl e \<Rightarrow> (Raised e, s')
         | Inr ns \<Rightarrow> (Completed ns (shown (risk_factor_v ns)), s'))) =
   (case filter_panel c (ns2\<lparr>data_v := df\<rparr>) of
      Inl e \<Rightarrow> (Raised e, s')
    | Inr ns \<Rightarrow>
        (case aggregation observed ns of
           Inl e \<Rightarrow> (Raised e, s')
         | Inr ns \<Rightarrow> (Completed ns (shown (risk_factor_v ns)), s')))"
proof (cases df)
  case Nil
  then show ?thesis by (simp add: filter_panel_def)
next
  case (Cons r rs)
  let ?p1 = "ns1\<lparr>data_v := df, gender_options_v := gender_options c,
                  age_min_v := fold min (map age rs) (age r),
                  age_max_v := fold max (map age rs) (age r),
                  age_range_v := age_range c,
                  risk_factor_v := risk_factor c\<rparr>"
  let ?p2 = "ns2\<lparr>data_v := df, gender_options_v := gender_options c,
                  age_min_v := fold min (map age rs) (age r),
                  age_max_v := fold max (map age rs) (age r),
                  age_range_v := age_range c,
                  risk_factor_v := risk_factor c\<rparr>"
  have "aggregation observed ?p1 = aggregation observed ?p2"
    by (rule aggregation_indep) simp_all
  then show ?thesis
    using Cons by (simp add: filter_panel_def)
qed

subsection \<open>The claims\<close>

text \<open>
  Claim C3. For every gender inclusion set and every inclusive age range, each row of the
  filtered table has its gender in the set and its age within the range, and each row of
  the input table with both properties is a row of the filtered table (as often as it
  occurs in the input).
\<close>

theorem filtered_data_sound_complete:
  "(\<forall>r \<in> set (filtered_data data sel (lo, hi)).
      gender r \<in> set sel \<and> lo \<le> age r \<and> age r \<le> hi)
   \<and> (\<forall>r \<in> set data.
        gender r \<in> set sel \<and> lo \<le> age r \<and> age r \<le> hi
        \<longrightarrow> r \<in> set (filtered_data data sel (lo, hi)))
   \<and> mset (filtered_data data sel (lo, hi)) =
       filter_mset (\<lambda>r. gender r \<in> set sel \<and> lo \<le> age r \<and> age r \<le> hi)
         (mset data)"
  by (auto simp: filtered_data_def isin_def between_def)

theorem filtered_data_sound_complete_witness:
  "filtered_data ex_men [''Male''] (41, 50) =
     [ex_row ''Male'' 45 1 0 (Some 4) ''Hypertension Stage 2'' 0,
      ex_row ''Male'' 41 0 0 None ''Normal'' 0]
   \<and> ex_row ''Male'' 41 0 0 None ''Normal'' 0 \<in> set (filtered_data ex_men [''Male''] (41, 50))
   \<and> ex_row ''Male'' 40 1 9 (Some 1) ''Normal'' 1 \<notin> set (filtered_data ex_men [''Male''] (41, 50))"
  using filtered_data_sound_complete [of ex_men "[''Male'']" 41 50]
  by (simp add: ex_defs filtered_data_def isin_def between_def)

text \<open>
  Claim C2. Let every \<^verbatim>\<open>TenYearCHD\<close> of the filtered table be 0 or 1. In each of the gender,
  smoking-status, education and blood-pressure aggregates (and in the rate-by-category step
  over any key column), a category with at least one row has exactly one entry, and its
  percentage is the number of rows of the group with \<^verbatim>\<open>TenYearCHD = 1\<close>, divided by the number
  of rows of the group, times 100; a category with no row has no entry. For education and
  blood pressure the category is one of the fixed list (the loader produces no other
  education label; a blood-pressure label outside the list loses its name in the frame).
\<close>

theorem rate_by_category_correct:
  assumes "\<forall>r \<in> set fd. TenYearCHD r = 0 \<or> TenYearCHD r = 1"
  shows "((\<exists>r \<in> set fd. gender r = g) \<longrightarrow>
            map CHD_Risk_pct (filter (\<lambda>x. category x = g) (chd_rate_gender fd)) =
              [Some (chd_share_pct (\<lambda>r. gender r = g) fd)])
       \<and> (\<not> (\<exists>r \<in> set fd. gender r = g) \<longrightarrow> g \<notin> category ` set (chd_rate_gender fd))
       \<and> ((\<exists>r \<in> set fd. Smoking_Status r = s) \<longrightarrow>
            map CHD_Risk_pct (filter (\<lambda>x. category x = s) (chd_rate_smoke fd)) =
              [Some (chd_share_pct (\<lambda>r. Smoking_Status r = s) fd)])
       \<and> (\<not> (\<exists>r \<in> set fd. Smoking_Status r = s) \<longrightarrow> s \<notin> category ` set (chd_rate_smoke fd))
       \<and> ((\<exists>r \<in> set fd. Education_Level r = Some e) \<and> e \<in> set edu_order \<longrightarrow>
            map CHD_Risk_pct (filter (\<lambda>x. category x = Some e) (chd_rate_edu fd)) =
              [Some (chd_share_pct (\<lambda>r. Education_Level r = Some e) fd)])
       \<and> (\<not> (\<exists>r \<in> set fd. Education_Level r = Some e) \<longrightarrow>
            Some e \<notin> category ` set (chd_rate_edu fd))
       \<and> ((\<exists>r \<in> set fd. BP_Category r = b) \<and> b \<in> set bp_order \<longrightarrow>
            map CHD_Risk_pct (filter (\<lambda>x. category x = Some b) (chd_rate_bp fd)) =
              [Some (chd_share_pct (\<lambda>r. BP_Category r = b) fd)])
       \<and> (\<not> (\<exists>r \<in> set fd. BP_Category r = b) \<longrightarrow> Some b \<notin> category ` set (chd_rate_bp fd))
       \<and> ((\<exists>r \<in> set fd. key r = Some k) \<longrightarrow>
            map CHD_Risk_pct (filter (\<lambda>x. category x = k) (rate_by_category key TenYearCHD fd)) =
              [Some (chd_share_pct (\<lambda>r. key r = Some k) fd)])
       \<and> (\<not> (\<exists>r \<in> set fd. key r = Some k) \<longrightarrow>
            k \<notin> category ` set (rate_by_category key TenYearCHD fd))"
proof (intro conjI impI)
  show "map CHD_Risk_pct (filter (\<lambda>x. category x = g) (chd_rate_gender fd)) =
      [Some (chd_share_pct (\<lambda>r. gender r = g) fd)]"
    if "\<exists>r \<in> set fd. gender r = g"
    using rate_by_category_entry [OF assms, of "\<lambda>r. Some (gender r)" g] that
    by (simp add: chd_rate_gender_def)
  show "g \<notin> category ` set (chd_rate_gender fd)" if "\<not> (\<exists>r \<in> set fd. gender r = g)"
    using rate_by_category_absent [of fd "\<lambda>r. Some (gender r)" g] that
    by (simp add: chd_rate_gender_def)
  show "map CHD_Risk_pct (filter (\<lambda>x. category x = s) (chd_rate_smoke fd)) =
      [Some (chd_share_pct (\<lambda>r. Smoking_Status r = s) fd)]"
    if "\<exists>r \<in> set fd. Smoking_Status r = s"
    using rate_by_category_entry [OF assms, of "\<lambda>r. Some (Smoking_Status r)" s] that
    by (simp add: chd_rate_smoke_def)
  show "s \<notin> category ` set (chd_rate_smoke fd)" if "\<not> (\<exists>r \<in> set fd. Smoking_Status r = s)"
    using rate_by_category_absent [of fd "\<lambda>r. Some (Smoking_Status r)" s] that
    by (simp add: chd_rate_smoke_def)
  show "map CHD_Risk_pct (filter (\<lambda>x. category x = Some e) (chd_rate_edu fd)) =
      [Some (chd_share_pct (\<lambda>r. Education_Level r = Some e) fd)]"
    if "(\<exists>r \<in> set fd. Education_Level r = Some e) \<and> e \<in> set edu_order"
  proof -
    from that have present: "\<exists>r \<in> set fd. Education_Level r = Some e"
      and known: "e \<in> set edu_order"
      by simp_all
    show ?thesis
      by (simp only: chd_rate_edu_eq
          sorted_frame_entry [OF known rate_by_category_entry [OF assms present]])
        (simp add: pct_set_category)
  qed
  show "Some e \<notin> category ` set (chd_rate_edu fd)"
    if "\<not> (\<exists>r \<in> set fd. Education_Level r = Some e)"
    unfolding chd_rate_edu_eq
    by (rule sorted_frame_absent [OF rate_by_category_absent [OF that]])
  show "map CHD_Risk_pct (filter (\<lambda>x. category x = Some b) (chd_rate_bp fd)) =
      [Some (chd_share_pct (\<lambda>r. BP_Category r = b) fd)]"
    if "(\<exists>r \<in> set fd. BP_Category r = b) \<and> b \<in> set bp_order"
  proof -
    from that have present: "\<exists>r \<in> set fd. Some (BP_Category r) = Some b"
      and known: "b \<in> set bp_order"
      by simp_all
    show ?thesis
      by (simp only: chd_rate_bp_eq
          sorted_frame_entry [OF known rate_by_category_entry [OF assms present]])
        (simp add: pct_set_category)
  qed
  show "Some b \<notin> category ` set (chd_rate_bp fd)"
    if "\<not> (\<exists>r \<in> set fd. BP_Category r = b)"
  proof -
    from that have "\<not> (\<exists>r \<in> set fd. Some (BP_Category r) = Some b)"
      by simp
    then show ?thesis
      unfolding chd_rate_bp_eq
      by (rule sorted_frame_absent [OF rate_by_category_absent])
  qed
  show "map CHD_Risk_pct (filter (\<lambda>x. category x = k) (rate_by_category key TenYearCHD fd)) =
      [Some (chd_share_pct (\<lambda>r. key r = Some k) fd)]"
    if "\<exists>r \<in> set fd. key r = Some k"
    by (simp add: rate_by_category_entry [OF assms that])
  show "k \<notin> category ` set (rate_by_category key TenYearCHD fd)"
    if "\<not> (\<exists>r \<in> set fd. key r = Some k)"
    by (rule rate_by_category_absent [OF that])
qed

theorem rate_by_category_correct_witness:
  "map (\<lambda>x. (category x, CHD_Risk_pct x)) (chd_rate_gender ex_men) = [(''Male'', Some (100 / 3))]
   \<and> chd_share_pct (\<lambda>r. gender r = ''Male'') ex_men = 100 / 3
   \<and> ''Female'' \<notin> category ` set (chd_rate_gender ex_men)
   \<and> map (\<lambda>x. (category x, CHD_Risk_pct x)) (chd_rate_smoke ex_men) =
       [(''Current Smoker'', Some 50), (''Non-Smoker'', Some 0)]
   \<and> map (\<lambda>x. (category x, CHD_Risk_pct x)) (chd_rate_edu ex_men) =
       [(Some ''Some High School'', Some 100), (Some ''College'', Some 0)]
   \<and> map (\<lambda>x. (category x, CHD_Risk_pct x)) (chd_rate_bp ex_men) =
       [(Some ''Normal'', Some 50), (Some ''Hypertension Stage 2'', Some 0)]"
  using rate_by_category_correct
    [of ex_men "''Male''" "''Non-Smoker''" "''College''" "''Normal''" "\<lambda>r. Some (gender r)" "''Female''"]
  by (simp add: ex_defs agg_defs chd_share_pct_def)

text \<open>
  Claim C8. The loader labels the education codes 1, 2, 3 and 4 as Some High School,
  High School/GED, Some College and College; every other education value, a missing one
  included, gets a missing label, and the loader returns a row in every case.
\<close>

theorem education_level_mapping:
  "(education r = Some 1 \<longrightarrow> Education_Level (load_row r) = Some ''Some High School'')
   \<and> (education r = Some 2 \<longrightarrow> Education_Level (load_row r) = Some ''High School/GED'')
   \<and> (education r = Some 3 \<longrightarrow> Education_Level (load_row r) = Some ''Some College'')
   \<and> (education r = Some 4 \<longrightarrow> Education_Level (load_row r) = Some ''College'')
   \<and> (education r \<notin> {Some 1, Some 2, Some 3, Some 4} \<longrightarrow>
        Education_Level (load_row r) = None)
   \<and> map Education_Level (load_data df) =
       map (\<lambda>r. series_map education_map (education r)) df"
  by (cases "education r")
    (auto simp: load_row_def load_data_def series_map_def education_map_def)

theorem education_level_mapping_witness:
  "map Education_Level
     (load_data [ex_csv ''Male'' 40 1 9 (Some 1) ''Normal'' 1,
                 ex_csv ''Male'' 40 1 9 (Some 2) ''Normal'' 1,
                 ex_csv ''Male'' 40 1 9 (Some 3) ''Normal'' 1,
                 ex_csv ''Male'' 40 1 9 (Some 4) ''Normal'' 1,
                 ex_csv ''Male'' 40 1 9 (Some 5) ''Normal'' 1,
                 ex_csv ''Male'' 40 1 9 (Some (3 / 2)) ''Normal'' 1,
                 ex_csv ''Male'' 40 1 9 None ''Normal'' 1]) =
     [Some ''Some High School'', Some ''High School/GED'', Some ''Some College'',
      Some ''College'', None, None, None]
   \<and> Education_Level (load_row (ex_csv ''Male'' 40 1 9 (Some 5) ''Normal'' 1)) = None
   \<and> Education_Level (load_row (ex_csv ''Male'' 40 1 9 None ''Normal'' 1)) = None"
  using education_level_mapping [of "ex_csv ''Male'' 40 1 9 (Some 5) ''Normal'' 1"]
    education_level_mapping [of "ex_csv ''Male'' 40 1 9 None ''Normal'' 1"]
  by (simp add: ex_defs load_data_def)

text \<open>
  Claim C1. What the banding of the source does at 9, 10 and 25 cigarettes a day (and at
  19): the edges 0, 9, 19, 70 with intervals closed on the left put 9 into the band
  labelled Moderate (10-19) and 19 into the band labelled Heavy (20+); 10 is Moderate and
  25 is Heavy. The claim's Light (1-9) for 9 is what the labels of the source say, and is
  not what the source computes.
\<close>

theorem cut_at_band_edges:
  "pd_cut [9, 10, 25, 19, 8] bins labels =
     Inr [Some ''Moderate (10-19)'', Some ''Moderate (10-19)'', Some ''Heavy (20+)'',
          Some ''Heavy (20+)'', Some ''Light (1-9)'']
   \<and> chd_rate_intensity True [ex_row ''Male'' 40 1 9 (Some 1) ''Normal'' 1] =
       Inr [\<lparr>category = ''Moderate (10-19)'', TenYearCHD_mean = Some 1,
             CHD_Risk_pct = Some 100\<rparr>]"
  by (simp add: ex_defs agg_defs)

text \<open>
  Claim C5, as amended. Let every \<^verbatim>\<open>TenYearCHD\<close> of the table be 0 or 1. Every percentage of
  the gender, education, smoking-status and blood-pressure aggregates is a number within
  [0, 100]. The intensity aggregate is computed without error, and each of its percentages
  is a number within [0, 100] or is missing (NaN); it is missing only for a band that no
  row falls in, and such a band is listed only when \<^verbatim>\<open>groupby\<close> lists unobserved
  categories.
\<close>

theorem chd_risk_pct_in_range:
  assumes "\<forall>r \<in> set fd. TenYearCHD r = 0 \<or> TenYearCHD r = 1"
  shows "(\<forall>x \<in> set (chd_rate_gender fd). \<exists>v. CHD_Risk_pct x = Some v \<and> 0 \<le> v \<and> v \<le> 100)
       \<and> (\<forall>x \<in> set (chd_rate_edu fd). \<exists>v. CHD_Risk_pct x = Some v \<and> 0 \<le> v \<and> v \<le> 100)
       \<and> (\<forall>x \<in> set (chd_rate_smoke fd). \<exists>v. CHD_Risk_pct x = Some v \<and> 0 \<le> v \<and> v \<le> 100)
       \<and> (\<forall>x \<in> set (chd_rate_bp fd). \<exists>v. CHD_Risk_pct x = Some v \<and> 0 \<le> v \<and> v \<le> 100)
       \<and> (\<exists>agg. chd_rate_intensity observed fd = Inr agg
            \<and> (\<forall>x \<in> set agg.
                 case CHD_Risk_pct x of
                   Some v \<Rightarrow> 0 \<le> v \<and> v \<le> 100
                 | None \<Rightarrow> \<not> observed \<and> band_rows fd (category x) = []))"
proof (intro conjI)
  show "\<forall>x \<in> set (chd_rate_gender fd). \<exists>v. CHD_Risk_pct x = Some v \<and> 0 \<le> v \<and> v \<le> 100"
    unfolding chd_rate_gender_def using rate_by_category_range [OF assms] by blast
  show "\<forall>x \<in> set (chd_rate_smoke fd). \<exists>v. CHD_Risk_pct x = Some v \<and> 0 \<le> v \<and> v \<le> 100"
    unfolding chd_rate_smoke_def using rate_by_category_range [OF assms] by blast
  show "\<forall>x \<in> set (chd_rate_edu fd). \<exists>v. CHD_Risk_pct x = Some v \<and> 0 \<le> v \<and> v \<le> 100"
    using rate_by_category_range [OF assms, of _ Education_Level]
    by (auto simp: chd_rate_edu_def edu_plot_def Let_def set_sort_values_categorical
        pct_set_category)
  show "\<forall>x \<in> set (chd_rate_bp fd). \<exists>v. CHD_Risk_pct x = Some v \<and> 0 \<le> v \<and> v \<le> 100"
    using rate_by_category_range [OF assms, of _ "\<lambda>r. Some (BP_Category r)"]
    by (auto simp: chd_rate_bp_def Let_def set_sort_values_categorical pct_set_category)
  show "\<exists>agg. chd_rate_intensity observed fd = Inr agg
            \<and> (\<forall>x \<in> set agg.
                 case CHD_Risk_pct x of
                   Some v \<Rightarrow> 0 \<le> v \<and> v \<le> 100
                 | None \<Rightarrow> \<not> observed \<and> band_rows fd (category x) = [])"
  proof (intro exI conjI ballI)
    show "chd_rate_intensity observed fd = Inr (map (\<lambda>l. with_pct (l, mean (map TenYearCHD (band_rows fd l))))
            (categorical_group_keys observed labels
               (map (\<lambda>r. cut_label bins labels (cigsPerDay r)) (smokers_df fd))))"
      by (rule chd_rate_intensity_eq)
  next
    fix x
    assume "x \<in> set (map (\<lambda>l. with_pct (l, mean (map TenYearCHD (band_rows fd l))))
            (categorical_group_keys observed labels
               (map (\<lambda>r. cut_label bins labels (cigsPerDay r)) (smokers_df fd))))"
    then obtain l where l: "l \<in> set (categorical_group_keys observed labels
               (map (\<lambda>r. cut_label bins labels (cigsPerDay r)) (smokers_df fd)))"
      and x: "x = with_pct (l, mean (map TenYearCHD (band_rows fd l)))"
      by auto
    have "\<forall>v \<in> set (map TenYearCHD (band_rows fd l)). v = 0 \<or> v = 1"
      using assms by (auto simp: band_rows_def)
    from pct_range [OF this, of l] have
      c: "case CHD_Risk_pct x of None \<Rightarrow> band_rows fd l = [] | Some v \<Rightarrow> 0 \<le> v \<and> v \<le> 100"
      by (simp add: x split: option.splits)
    have "band_rows fd l \<noteq> []" if observed
      using l that
      by (auto simp: categorical_group_keys_def band_rows_def smokers_df_def filter_empty_conv)
    with c show "case CHD_Risk_pct x of
                   Some v \<Rightarrow> 0 \<le> v \<and> v \<le> 100
                 | None \<Rightarrow> \<not> observed \<and> band_rows fd (category x) = []"
      by (auto simp: x category_with_pct split: option.splits)
  qed
qed

theorem chd_risk_pct_in_range_witness:
  "map CHD_Risk_pct (chd_rate_gender ex_mixed) = [Some 50, Some (100 / 3)]
   \<and> map CHD_Risk_pct (chd_rate_edu ex_mixed) = [Some 100, Some 100, Some 0]
   \<and> map CHD_Risk_pct (chd_rate_smoke ex_mixed) = [Some 50, Some 0]
   \<and> map CHD_Risk_pct (chd_rate_bp ex_mixed) = [Some 50, Some 0, Some 0, Some 100]
   \<and> map_sum id (map CHD_Risk_pct) (chd_rate_intensity True ex_mixed) =
       Inr [Some 0, Some 100, Some 0]
   \<and> map_sum id (map CHD_Risk_pct) (chd_rate_intensity False ex_men) =
       Inr [Some 0, Some 100, None]"
  using chd_risk_pct_in_range [of ex_mixed True] chd_risk_pct_in_range [of ex_men False]
  by (simp add: ex_defs agg_defs)

text \<open>
  The claim as stated fails where \<^verbatim>\<open>groupby\<close> lists unobserved categories (the default
  before pandas 3.0): every \<^verbatim>\<open>TenYearCHD\<close> of the table is 0 or 1, no smoker of the table is
  in the band Heavy (20+), and the percentage of that band is missing, which is no number
  within [0, 100].
\<close>

theorem intensity_pct_missing_counterexample:
  "map TenYearCHD ex_men = [1, 0, 0]
   \<and> chd_rate_intensity False ex_men =
       Inr [\<lparr>category = ''Light (1-9)'', TenYearCHD_mean = Some 0, CHD_Risk_pct = Some 0\<rparr>,
            \<lparr>category = ''Moderate (10-19)'', TenYearCHD_mean = Some 1, CHD_Risk_pct = Some 100\<rparr>,
            \<lparr>category = ''Heavy (20+)'', TenYearCHD_mean = None, CHD_Risk_pct = None\<rparr>]"
  by (simp add: ex_defs agg_defs)

text \<open>
  Claim C6. The intensity aggregate is computed without error, and it is the aggregate of
  the current smokers whose \<^verbatim>\<open>cigsPerDay\<close> is in [0, 70) alone: dropping every other row
  (each non-smoker, each smoker outside the range) leaves it unchanged. The mean of a band
  is taken over rows of the table that are current smokers within the range.
\<close>

theorem intensity_only_smokers_in_range:
  "\<exists>agg. chd_rate_intensity observed fd = Inr agg
     \<and> chd_rate_intensity observed (filter in_range_smoker fd) = Inr agg
     \<and> (\<forall>x \<in> set agg.
          TenYearCHD_mean x = mean (map TenYearCHD (band_rows fd (category x)))
          \<and> (\<forall>r \<in> set (band_rows fd (category x)). r \<in> set fd \<and> in_range_smoker r))"
proof (intro exI conjI ballI)
  show "chd_rate_intensity observed fd =
      Inr (map (\<lambda>l. with_pct (l, mean (map TenYearCHD (band_rows fd l))))
            (categorical_group_keys observed labels
               (map (\<lambda>r. cut_label bins labels (cigsPerDay r)) (smokers_df fd))))"
    by (rule chd_rate_intensity_eq)
  show "chd_rate_intensity observed (filter in_range_smoker fd) =
      Inr (map (\<lambda>l. with_pct (l, mean (map TenYearCHD (band_rows fd l))))
            (categorical_group_keys observed labels
               (map (\<lambda>r. cut_label bins labels (cigsPerDay r)) (smokers_df fd))))"
    by (simp only: chd_rate_intensity_eq band_rows_filter intensity_keys_filter)
next
  fix x
  assume "x \<in> set (map (\<lambda>l. with_pct (l, mean (map TenYearCHD (band_rows fd l))))
            (categorical_group_keys observed labels
               (map (\<lambda>r. cut_label bins labels (cigsPerDay r)) (smokers_df fd))))"
  then show "TenYearCHD_mean x = mean (map TenYearCHD (band_rows fd (category x)))"
    by (auto simp: with_pct_def)
next
  fix x :: "string rate_row" and r
  assume "r \<in> set (band_rows fd (category x))"
  then show "r \<in> set fd" and "in_range_smoker r"
    by (auto simp: band_rows_def in_range_smoker_def dest: cut_label_Some_range)
qed

theorem intensity_only_smokers_in_range_witness:
  "filter in_range_smoker ex_mixed =
     [ex_row ''Male'' 40 1 9 (Some 1) ''Normal'' 1,
      ex_row ''Male'' 45 1 0 (Some 4) ''Hypertension Stage 2'' 0,
      ex_row ''Male'' 41 1 25 (Some 4) ''Normal'' 0]
   \<and> chd_rate_intensity False ex_mixed =
       Inr [\<lparr>category = ''Light (1-9)'', TenYearCHD_mean = Some 0, CHD_Risk_pct = Some 0\<rparr>,
            \<lparr>category = ''Moderate (10-19)'', TenYearCHD_mean = Some 1, CHD_Risk_pct = Some 100\<rparr>,
            \<lparr>category = ''Heavy (20+)'', TenYearCHD_mean = Some 0, CHD_Risk_pct = Some 0\<rparr>]
   \<and> chd_rate_intensity False (filter in_range_smoker ex_mixed) =
       chd_rate_intensity False ex_mixed"
  using intensity_only_smokers_in_range [of False ex_mixed]
  by (simp add: ex_defs agg_defs in_range_smoker_def)

text \<open>
  Claim C7, as amended. When the filtered table is empty the pipeline returns without
  error; the gender, education, smoking-status and blood-pressure aggregates, the rows of
  the age chart and the BMI and cholesterol groups are empty. The intensity aggregate is
  empty when \<^verbatim>\<open>groupby\<close> lists observed categories only; otherwise it lists the three bands,
  each with a missing rate.
\<close>

theorem empty_filter_gives_empty_aggregates:
  assumes "filtered_data data sel rng = []"
  shows "pipeline observed data sel rng =
     Inr \<lparr>fig_sex = [], fig_age = [], fig_edu = ([], []), fig_smoke = [],
          fig_intensity =
            (if observed then []
             else map (\<lambda>l. \<lparr>category = l, TenYearCHD_mean = None, CHD_Risk_pct = None\<rparr>) labels),
          fig_bmi = ([], []), fig_chol = ([], []), fig_bp = []\<rparr>"
  by (simp add: pipeline_def assms chd_rate_intensity_eq smokers_df_def band_rows_def
      categorical_group_keys_def with_pct_def mean_def chd_rate_gender_def chd_rate_smoke_def
      rate_by_category_def group_keys_def groupby_mean_def risk_data_def edu_plot_def
      sort_values_desc_def sort_values_categorical_def bmi_groups_def chol_groups_def
      chd_rate_bp_def)

theorem empty_filter_gives_empty_aggregates_witness:
  "filtered_data ex_men [''Male''] (0, 30) = []
   \<and> pipeline True ex_men [''Male''] (0, 30) =
       Inr \<lparr>fig_sex = [], fig_age = [], fig_edu = ([], []), fig_smoke = [],
            fig_intensity = [], fig_bmi = ([], []), fig_chol = ([], []), fig_bp = []\<rparr>"
  using empty_filter_gives_empty_aggregates [of ex_men "[''Male'']" "(0, 30)" True]
  by (simp add: ex_defs filtered_data_def isin_def between_def)

text \<open>
  The claim as stated fails where \<^verbatim>\<open>groupby\<close> lists unobserved categories (the default
  before pandas 3.0): the filtered table is empty and the intensity aggregate has three
  entries.
\<close>

theorem empty_filter_intensity_counterexample:
  "filtered_data ex_men [''Male''] (0, 30) = []
   \<and> map_sum id fig_intensity (pipeline False ex_men [''Male''] (0, 30)) =
       Inr [\<lparr>category = ''Light (1-9)'', TenYearCHD_mean = None, CHD_Risk_pct = None\<rparr>,
            \<lparr>category = ''Moderate (10-19)'', TenYearCHD_mean = None, CHD_Risk_pct = None\<rparr>,
            \<lparr>category = ''Heavy (20+)'', TenYearCHD_mean = None, CHD_Risk_pct = None\<rparr>]"
  by (simp add: ex_defs pipeline_def agg_defs)

text \<open>
  Claim C9. The result of a run of the script (stopped at the gate, an exception, or the
  variables it assigned and the charts it shows) and the session it leaves do not depend
  on what the variables held when the run started. A further run with the same widget
  values, from the session that a run left and from any namespace, has the same result
  and leaves the same session, also when the remote CSV has changed in between: the table
  is taken from the cache, no statement writes to it, and every other variable is assigned
  from the table and the widget values before it is read.
\<close>

theorem script_run_no_hidden_state:
  "script_run observed csv c s ns1 = script_run observed csv c s ns2
   \<and> script_run observed csv' c (snd (script_run observed csv c s ns1)) ns2 =
       script_run observed csv c s ns1"
proof (cases "check_password s")
  case False
  then show ?thesis by (simp add: script_run_def)
next
  case True
  show ?thesis
  proof (cases "cached_data s")
    case None
    have pw: "check_password (s\<lparr>cached_data := Some (load_data csv)\<rparr>)"
      using True by (simp add: check_password_def)
    show ?thesis
      using True None pw
        run_after_panel_indep
          [where c = c and ?ns1.0 = ns1 and ?ns2.0 = ns2 and df = "load_data csv"
            and s' = "s\<lparr>cached_data := Some (load_data csv)\<rparr>" and observed = observed]
      by (simp add: script_run_def load_data_cached_def Let_def split: sum.splits)
  next
    case (Some df)
    show ?thesis
      using True Some run_after_panel_indep
          [where c = c and ?ns1.0 = ns1 and ?ns2.0 = ns2 and df = df and s' = s
            and observed = observed]
      by (simp add: script_run_def load_data_cached_def Let_def split: sum.splits)
  qed
qed

theorem script_run_no_hidden_state_witness:
  "(case fst (script_run True [ex_csv ''Male'' 45 1 0 (Some 4) ''Normal'' 0] ex_controls
               ex_session ex_stale) of
      Completed ns charts \<Rightarrow> (chd_rate_gender_v ns, age_range_v ns, charts)
    | _ \<Rightarrow> ([], (0, 0), [])) =
     ([\<lparr>category = ''Male'', TenYearCHD_mean = Some 0, CHD_Risk_pct = Some 0\<rparr>], (41, 50),
      [''fig_sex'', ''fig_age'', ''fig_edu'', ''fig_smoke'', ''fig_intensity''])
   \<and> snd (script_run True [ex_csv ''Male'' 45 1 0 (Some 4) ''Normal'' 0] ex_controls
            ex_session ex_stale) =
       \<lparr>password_correct = Some True,
        cached_data = Some [ex_row ''Male'' 45 1 0 (Some 4) ''Normal'' 0]\<rparr>
   \<and> script_run True [ex_csv ''Male'' 45 1 0 (Some 4) ''Normal'' 0] ex_controls
        ex_session ex_stale =
      script_run True [ex_csv ''Male'' 45 1 0 (Some 4) ''Normal'' 0] ex_controls
        ex_session ex_blank
   \<and> script_run True [] ex_controls
        (snd (script_run True [ex_csv ''Male'' 45 1 0 (Some 4) ''Normal'' 0] ex_controls
                ex_session ex_stale)) ex_blank =
      script_run True [ex_csv ''Male'' 45 1 0 (Some 4) ''Normal'' 0] ex_controls
        ex_session ex_stale"
proof -
  let ?csv = "[ex_csv ''Male'' 45 1 0 (Some 4) ''Normal'' 0]"
  have result: "(case fst (script_run True ?csv ex_controls ex_session ex_stale) of
      Completed ns charts \<Rightarrow> (chd_rate_gender_v ns, age_range_v ns, charts)
    | _ \<Rightarrow> ([], (0, 0), [])) =
     ([\<lparr>category = ''Male'', TenYearCHD_mean = Some 0, CHD_Risk_pct = Some 0\<rparr>], (41, 50),
      [''fig_sex'', ''fig_age'', ''fig_edu'', ''fig_smoke'', ''fig_intensity''])"
    by (simp add: script_run_def check_password_def load_data_cached_def load_data_def Let_def
        filter_panel_def aggregation_eq pipeline_def chd_rate_intensity_eq shown_def
        ex_session_def ex_controls_def ex_csv_def load_row_def series_map_def
        education_map_def filtered_data_def isin_def between_def chd_rate_gender_def
        rate_by_category_def group_keys_def groupby_mean_def with_pct_def mean_def)
  have left: "snd (script_run True ?csv ex_controls ex_session ex_stale) =
       \<lparr>password_correct = Some True,
        cached_data = Some [ex_row ''Male'' 45 1 0 (Some 4) ''Normal'' 0]\<rparr>"
    by (simp add: script_run_def check_password_def load_data_cached_def load_data_def Let_def
        filter_panel_def aggregation_eq pipeline_def chd_rate_intensity_eq
        ex_session_def ex_row_def split: sum.splits)
  note both = script_run_no_hidden_state
    [of True ?csv ex_controls ex_session ex_stale ex_blank "[]"]
  from result left both [THEN conjunct1] both [THEN conjunct2] show ?thesis
    by (intro conjI)
qed

text \<open>
  Claim C10. A row of the filtered table with \<^verbatim>\<open>currentSmoker = 1\<close> and \<^verbatim>\<open>cigsPerDay = 0\<close>
  is cut to the band labelled Light (1-9), counts among the rows of that band, and the
  intensity aggregate has exactly one entry for that band, with the mean over these rows.
\<close>

theorem zero_cigs_smoker_is_light:
  assumes "r \<in> set fd" and "currentSmoker r = 1" and "cigsPerDay r = 0"
  shows "cut_label bins labels (cigsPerDay r) = Some ''Light (1-9)''
       \<and> r \<in> set (band_rows fd ''Light (1-9)'')
       \<and> (\<exists>agg. chd_rate_intensity observed fd = Inr agg
            \<and> filter (\<lambda>x. category x = ''Light (1-9)'') agg =
                [with_pct (''Light (1-9)'', mean (map TenYearCHD (band_rows fd ''Light (1-9)'')))])"
proof (intro conjI)
  show light: "cut_label bins labels (cigsPerDay r) = Some ''Light (1-9)''"
    using assms(3) by (simp add: cut_label_bins)
  show "r \<in> set (band_rows fd ''Light (1-9)'')"
    using assms(1,2) light by (simp add: band_rows_def)
  let ?keys = "categorical_group_keys observed labels
               (map (\<lambda>r. cut_label bins labels (cigsPerDay r)) (smokers_df fd))"
  have "Some ''Light (1-9)'' \<in> set (map (\<lambda>r. cut_label bins labels (cigsPerDay r)) (smokers_df fd))"
    using assms(1,2) light by (force simp: smokers_df_def)
  then have "''Light (1-9)'' \<in> set ?keys"
    by (simp add: categorical_group_keys_def labels_def)
  then have "filter (\<lambda>j. j = ''Light (1-9)'') ?keys = [''Light (1-9)'']"
    by (rule filter_eq_distinct [OF distinct_intensity_keys])
  then have "filter (\<lambda>x. category x = ''Light (1-9)'')
       (map (\<lambda>l. with_pct (l, mean (map TenYearCHD (band_rows fd l)))) ?keys) =
     [with_pct (''Light (1-9)'', mean (map TenYearCHD (band_rows fd ''Light (1-9)'')))]"
    by (simp add: filter_map o_def category_with_pct)
  then show "\<exists>agg. chd_rate_intensity observed fd = Inr agg
            \<and> filter (\<lambda>x. category x = ''Light (1-9)'') agg =
                [with_pct (''Light (1-9)'', mean (map TenYearCHD (band_rows fd ''Light (1-9)'')))]"
    using chd_rate_intensity_eq by blast
qed

theorem zero_cigs_smoker_is_light_witness:
  "ex_row ''Male'' 45 1 0 (Some 4) ''Hypertension Stage 2'' 0 \<in> set ex_men
   \<and> pd_cut [0] bins labels = Inr [Some ''Light (1-9)'']
   \<and> band_rows ex_men ''Light (1-9)'' = [ex_row ''Male'' 45 1 0 (Some 4) ''Hypertension Stage 2'' 0]
   \<and> chd_rate_intensity True ex_men =
       Inr [\<lparr>category = ''Light (1-9)'', TenYearCHD_mean = Some 0, CHD_Risk_pct = Some 0\<rparr>,
            \<lparr>category = ''Moderate (10-19)'', TenYearCHD_mean = Some 1, CHD_Risk_pct = Some 100\<rparr>]"
  using zero_cigs_smoker_is_light
    [of "ex_row ''Male'' 45 1 0 (Some 4) ''Hypertension Stage 2'' 0" ex_men True]
  by (simp add: ex_defs agg_defs band_rows_def)

text \<open>
  Claim C4. Whatever the table and the order of its rows, the education aggregate lists
  the education levels that occur in the order Some High School, High School/GED, Some
  College, College, and the blood-pressure aggregate lists the categories that occur in
  the order Normal, Elevated, Hypertension Stage 1, Hypertension Stage 2; labels outside
  the fixed list become missing and come last (the loader produces no such education
  label). Permuting the rows of the table changes neither aggregate. The frame given to
  the education chart is the rate aggregate sorted by the fixed order: the sort by risk
  that picks the colours is no step of it.
\<close>

theorem category_order_fixed:
  "map category (chd_rate_edu fd) =
     map Some (filter (\<lambda>c. \<exists>r \<in> set fd. Education_Level r = Some c) edu_order)
     @ replicate (length (filter (\<lambda>k. k \<notin> set edu_order) (group_keys Education_Level fd))) None
   \<and> map category (chd_rate_edu (filtered_data (load_data csv) sel rng)) =
       map Some (filter (\<lambda>c. \<exists>r \<in> set (filtered_data (load_data csv) sel rng).
                               Education_Level r = Some c) edu_order)
   \<and> map category (chd_rate_bp fd) =
       map Some (filter (\<lambda>c. \<exists>r \<in> set fd. BP_Category r = c) bp_order)
       @ replicate (length (filter (\<lambda>k. k \<notin> set bp_order)
                              (group_keys (\<lambda>r. Some (BP_Category r)) fd))) None
   \<and> (mset fd' = mset fd \<longrightarrow>
        chd_rate_edu fd' = chd_rate_edu fd \<and> chd_rate_bp fd' = chd_rate_bp fd)
   \<and> fst (edu_plot fd) =
       sort_values_categorical edu_order
         (map (set_category (Categorical edu_order))
            (rate_by_category Education_Level TenYearCHD fd))"
proof (intro conjI impI)
  show edu: "map category (chd_rate_edu fd) =
     map Some (filter (\<lambda>c. \<exists>r \<in> set fd. Education_Level r = Some c) edu_order)
     @ replicate (length (filter (\<lambda>k. k \<notin> set edu_order) (group_keys Education_Level fd))) None"
    for fd
    by (simp only: chd_rate_edu_eq categories_sorted [OF distinct_orders(1)])
  let ?fd = "filtered_data (load_data csv) sel rng"
  have "k \<in> set edu_order" if "k \<in> set (group_keys Education_Level ?fd)" for k
    using that loaded_education_level
    by (auto simp: set_group_keys filtered_data_def load_data_def)
  then have "filter (\<lambda>k. k \<notin> set edu_order) (group_keys Education_Level ?fd) = []"
    by (simp add: filter_empty_conv)
  then show "map category (chd_rate_edu ?fd) =
       map Some (filter (\<lambda>c. \<exists>r \<in> set ?fd. Education_Level r = Some c) edu_order)"
    by (simp add: edu)
  show "map category (chd_rate_bp fd) =
       map Some (filter (\<lambda>c. \<exists>r \<in> set fd. BP_Category r = c) bp_order)
       @ replicate (length (filter (\<lambda>k. k \<notin> set bp_order)
                              (group_keys (\<lambda>r. Some (BP_Category r)) fd))) None"
    by (simp add: chd_rate_bp_eq categories_sorted [OF distinct_orders(2)])
  show "fst (edu_plot fd) =
       sort_values_categorical edu_order
         (map (set_category (Categorical edu_order))
            (rate_by_category Education_Level TenYearCHD fd))"
    by (simp add: edu_plot_def Let_def)
next
  assume perm: "mset fd' = mset fd"
  show "chd_rate_edu fd' = chd_rate_edu fd"
    by (simp only: chd_rate_edu_eq rate_by_category_perm [OF perm])
  show "chd_rate_bp fd' = chd_rate_bp fd"
    by (simp only: chd_rate_bp_eq rate_by_category_perm [OF perm])
qed

theorem category_order_fixed_witness:
  "map category (chd_rate_edu ex_mixed) =
     [Some ''Some High School'', Some ''High School/GED'', Some ''College'']
   \<and> map category (chd_rate_bp ex_mixed) =
       [Some ''Normal'', Some ''Elevated'', Some ''Hypertension Stage 2'', None]
   \<and> mset (rev ex_mixed) = mset ex_mixed
   \<and> chd_rate_edu (rev ex_mixed) = chd_rate_edu ex_mixed
   \<and> chd_rate_bp (rev ex_mixed) = chd_rate_bp ex_mixed
   \<and> map fst (color_map_edu ex_mixed) =
       [''High School/GED'', ''Some High School'', ''College'']"
  using category_order_fixed [of ex_mixed "[]" "[]" "(0, 0)" "rev ex_mixed"]
  by (simp add: ex_defs agg_defs color_map_edu_def)

end
